theory Spec2Isabelle
  imports Main "HOL-Library.Sublist"
begin

section \<open>The LogisFit service worker (static/sw.js)\<close>

text \<open>
  The worker intercepts the requests of the pages it controls. It keeps one named cache
  per deployed version, fills it at install time, removes the caches of other versions at
  activation time, and answers each intercepted request by one of two strategies.

  The model is sequential: one lifecycle or fetch event is handled at a time, against an
  explicit cache storage that each operation takes and returns, and an explicit network
  that says, for every request, whether the fetch is rejected or which response it
  resolves with. Every operation also returns the list of the platform calls it made, in
  order, so that "no network call" and "no cache access" are statements about a value.
\<close>

subsection \<open>Requests, responses, promises\<close>

text \<open>The parts of \<^verbatim>\<open>new URL(request.url)\<close>; the fragment is not part of a request.\<close>

record url =
  protocol :: string
  hostname :: string
  port :: string
  pathname :: string
  search :: string

record request =
  "method" :: string
  url :: url

text \<open>
  A response as far as the worker looks at it: the status, the body (as bytes) and the
  header fields. For a response the worker builds itself, \<open>headers\<close> holds the fields the
  code passes to the constructor. \<^verbatim>\<open>response.clone()\<close> is the same value.
\<close>

record response =
  status :: nat
  headers :: "(string \<times> string) list"
  body :: string

text \<open>\<^verbatim>\<open>response.ok\<close>: the status is in the range 200 to 299.\<close>

definition ok :: "response \<Rightarrow> bool" where
  "ok r \<longleftrightarrow> 200 \<le> status r \<and> status r \<le> 299"

text \<open>
  \<^verbatim>\<open>new Response(body, { status, headers })\<close>; the status defaults to 200 when the
  second argument does not give one.
\<close>

definition new_Response :: "string \<Rightarrow> nat option \<Rightarrow> (string \<times> string) list \<Rightarrow> response" where
  "new_Response b st hs =
     \<lparr>status = (case st of None \<Rightarrow> 200 | Some n \<Rightarrow> n), headers = hs, body = b\<rparr>"

text \<open>
  Header fields: a name is compared without regard to the case of its letters, and a
  value is a list of items separated by commas, each taken without the blanks around it.
\<close>

definition to_lower :: "char \<Rightarrow> char" where
  "to_lower c =
     (let n = (of_char c :: nat) in if 65 \<le> n \<and> n \<le> 90 then char_of (n + 32) else c)"

fun split_commas :: "string \<Rightarrow> string list" where
  "split_commas [] = [[]]"
| "split_commas (c # cs) =
     (if c = CHR '','' then [] # split_commas cs
      else (case split_commas cs of [] \<Rightarrow> [[c]] | item # items \<Rightarrow> (c # item) # items))"

definition is_blank :: "char \<Rightarrow> bool" where
  "is_blank c \<longleftrightarrow> c = CHR '' '' \<or> c = CHR 0x09"

definition trim :: "string \<Rightarrow> string" where
  "trim s = rev (dropWhile is_blank (rev (dropWhile is_blank s)))"

text \<open>The response has a \<^verbatim>\<open>Vary\<close> field one of whose items is \<^verbatim>\<open>*\<close>.\<close>

definition vary_star :: "response \<Rightarrow> bool" where
  "vary_star resp =
     list_ex (\<lambda>(name, v). map to_lower name = ''vary'' \<and> list_ex (\<lambda>item. trim item = ''*'') (split_commas v))
       (headers resp)"

text \<open>A settled promise: fulfilled with a value, or rejected.\<close>

datatype 'a promise = Fulfilled 'a | Rejected

text \<open>The network: what \<^verbatim>\<open>fetch(request)\<close> settles to.\<close>

type_synonym network = "request \<Rightarrow> response promise"

text \<open>\<^verbatim>\<open>String.prototype.startsWith\<close> and \<^verbatim>\<open>String.prototype.includes\<close>.\<close>

definition startsWith :: "string \<Rightarrow> string \<Rightarrow> bool" where
  "startsWith s p \<longleftrightarrow> prefix p s"

definition str_includes :: "string \<Rightarrow> string \<Rightarrow> bool" where
  "str_includes s t \<longleftrightarrow> sublist t s"

subsection \<open>The cache storage\<close>

text \<open>
  A cache maps a request (method and URL) to the response stored for it. The cache storage
  (\<^verbatim>\<open>caches\<close>) is the list of the named caches in the order of their creation.
  A failure of the storage itself (no room, no access) is outside the model: an open
  and a lookup always succeed, and a write fails only where the platform refuses what it
  is asked to store. A request is the method and the URL only, so a lookup does not
  compare request headers.
\<close>

type_synonym cache = "request \<rightharpoonup> response"

type_synonym cache_storage = "(string \<times> cache) list"

text \<open>\<^verbatim>\<open>caches.keys()\<close>: the names, in creation order.\<close>

definition caches_keys :: "cache_storage \<Rightarrow> string list" where
  "caches_keys s = map fst s"

text \<open>\<^verbatim>\<open>caches.open(name)\<close>: the cache of that name, created empty when there is none.\<close>

definition caches_open :: "string \<Rightarrow> cache_storage \<Rightarrow> cache_storage" where
  "caches_open name s = (if name \<in> set (caches_keys s) then s else s @ [(name, Map.empty)])"

text \<open>\<^verbatim>\<open>caches.delete(name)\<close>.\<close>

definition caches_delete :: "string \<Rightarrow> cache_storage \<Rightarrow> cache_storage" where
  "caches_delete name s = filter (\<lambda>(n, c). n \<noteq> name) s"

text \<open>
  \<^verbatim>\<open>caches.match(request)\<close> asks every cache of the storage, in creation order, and
  answers with the first entry found; it is not restricted to the cache of this version.
\<close>

fun caches_match :: "cache_storage \<Rightarrow> request \<Rightarrow> response option" where
  "caches_match [] r = None"
| "caches_match ((n, c) # s) r =
     (case c r of Some cached \<Rightarrow> Some cached | None \<Rightarrow> caches_match s r)"

text \<open>Writing an entry into the cache called \<open>name\<close>: add or overwrite.\<close>

definition cache_write :: "string \<Rightarrow> request \<Rightarrow> response \<Rightarrow> cache_storage \<Rightarrow> cache_storage" where
  "cache_write name r resp s = map (\<lambda>(n, c). if n = name then (n, c(r \<mapsto> resp)) else (n, c)) s"

text \<open>
  \<^verbatim>\<open>cache.put(request, response)\<close> on the cache called \<open>name\<close>. The platform
  refuses the pair, rejecting the promise and storing nothing, when the request is not
  an http or https GET request, when the response is a partial one (status 206), and
  when the response varies on \<^verbatim>\<open>*\<close>. The worker does not await the promise, so a
  refusal leaves the storage as it was and nothing else happens.
\<close>

definition put_refused :: "request \<Rightarrow> response \<Rightarrow> bool" where
  "put_refused r resp \<longleftrightarrow>
     (protocol (url r) \<noteq> ''http:'' \<and> protocol (url r) \<noteq> ''https:'')
     \<or> method r \<noteq> ''GET'' \<or> status resp = 206 \<or> vary_star resp"

definition cache_put :: "string \<Rightarrow> request \<Rightarrow> response \<Rightarrow> cache_storage \<Rightarrow> cache_storage" where
  "cache_put name r resp s = (if put_refused r resp then s else cache_write name r resp s)"

text \<open>The entry stored for a request in the cache called \<open>name\<close>, if any.\<close>

definition entry :: "cache_storage \<Rightarrow> string \<Rightarrow> request \<Rightarrow> response option" where
  "entry s name r = (case map_of s name of None \<Rightarrow> None | Some c \<Rightarrow> c r)"

text \<open>The platform calls an operation makes, in order, whatever they settle to.\<close>

datatype event =
    Fetch request
  | Match request
  | Open string
  | Put string request response
  | Keys
  | Delete string
  | Warn

subsection \<open>Configuration\<close>

definition CACHE_NAME :: string where
  "CACHE_NAME = ''logisfit-v1''"

definition PRECACHE_URLS :: "string list" where
  "PRECACHE_URLS =
     [''/'',
      ''/static/css/style.css'',
      ''/static/js/main.js'',
      ''/static/images/logo.png'',
      ''/static/images/favicon.ico'']"

definition CDN_HOSTS :: "string list" where
  "CDN_HOSTS =
     [''cdn.jsdelivr.net'',
      ''fonts.googleapis.com'',
      ''fonts.gstatic.com'']"

subsection \<open>The fetch listener\<close>

text \<open>
  The listener is a chain of tests on the method, the path and the host of the request;
  the first test that holds decides. The two early \<^verbatim>\<open>return\<close>s leave the request to
  the browser; the two middle branches answer with \<open>cacheFirst\<close>, the last with
  \<open>networkFirst\<close>.
\<close>

datatype category = NonCacheable | ThirdPartyAsset | StaticAsset | Navigational

definition classify :: "request \<Rightarrow> category" where
  "classify r =
     (if method r \<noteq> ''GET'' then NonCacheable
      else if startsWith (pathname (url r)) ''/api/'' then NonCacheable
      else if list_ex (\<lambda>host. str_includes (hostname (url r)) host) CDN_HOSTS then ThirdPartyAsset
      else if startsWith (pathname (url r)) ''/static/'' then StaticAsset
      else Navigational)"

subsection \<open>The offline page\<close>

text \<open>The Korean texts of the page, as the UTF-8 bytes of the response body.\<close>

definition ko_offline :: string where
  "ko_offline =
     [CHR 0xEC, CHR 0x98, CHR 0xA4, CHR 0xED, CHR 0x94, CHR 0x84, CHR 0xEB, CHR 0x9D,
      CHR 0xBC, CHR 0xEC, CHR 0x9D, CHR 0xB8]"

definition ko_offline_state :: string where
  "ko_offline_state =
     [CHR 0xEC, CHR 0x98, CHR 0xA4, CHR 0xED, CHR 0x94, CHR 0x84, CHR 0xEB, CHR 0x9D,
      CHR 0xBC, CHR 0xEC, CHR 0x9D, CHR 0xB8, CHR '' '', CHR 0xEC, CHR 0x83, CHR 0x81,
      CHR 0xED, CHR 0x83, CHR 0x9C, CHR 0xEC, CHR 0x9E, CHR 0x85, CHR 0xEB, CHR 0x8B,
      CHR 0x88, CHR 0xEB, CHR 0x8B, CHR 0xA4]"

definition ko_check_connection :: string where
  "ko_check_connection =
     [CHR 0xEC, CHR 0x9D, CHR 0xB8, CHR 0xED, CHR 0x84, CHR 0xB0, CHR 0xEB, CHR 0x84,
      CHR 0xB7, CHR '' '', CHR 0xEC, CHR 0x97, CHR 0xB0, CHR 0xEA, CHR 0xB2, CHR 0xB0,
      CHR 0xEC, CHR 0x9D, CHR 0x84, CHR '' '', CHR 0xED, CHR 0x99, CHR 0x95, CHR 0xEC,
      CHR 0x9D, CHR 0xB8, CHR 0xED, CHR 0x95, CHR 0x98, CHR 0xEA, CHR 0xB3, CHR 0xA0,
      CHR '' '', CHR 0xEB, CHR 0x8B, CHR 0xA4, CHR 0xEC, CHR 0x8B, CHR 0x9C, CHR '' '',
      CHR 0xEC, CHR 0x8B, CHR 0x9C, CHR 0xEB, CHR 0x8F, CHR 0x84, CHR 0xED, CHR 0x95,
      CHR 0xB4, CHR 0xEC, CHR 0xA3, CHR 0xBC, CHR 0xEC, CHR 0x84, CHR 0xB8, CHR 0xEC,
      CHR 0x9A, CHR 0x94, CHR ''.'']"

definition ko_reload :: string where
  "ko_reload =
     [CHR 0xEC, CHR 0x83, CHR 0x88, CHR 0xEB, CHR 0xA1, CHR 0x9C, CHR 0xEA, CHR 0xB3,
      CHR 0xA0, CHR 0xEC, CHR 0xB9, CHR 0xA8]"

text \<open>The document, concatenated as in the source, one operand per line.\<close>

definition offline_html :: string where
  \<open>offline_html =
     ''<!DOCTYPE html><html><head><meta charset="UTF-8"><meta name="viewport" content="width=device-width,initial-scale=1">'' @
     (''<title>'' @ ko_offline @ '' - LogisFit</title>'') @
     ''<style>body{font-family:"Noto Sans KR",sans-serif;display:flex;justify-content:center;align-items:center;'' @
     ''min-height:100vh;margin:0;background:#f8f9fa;color:#333}'' @
     ''.offline{text-align:center;padding:2rem}.offline h1{font-size:1.5rem;margin-bottom:1rem}'' @
     ''.offline p{color:#666}</style></head>'' @
     (''<body><div class="offline"><h1>'' @ ko_offline_state @ ''</h1>'') @
     (''<p>'' @ ko_check_connection @ ''</p>'') @
     ''<button onclick="location.reload()" style="margin-top:1rem;padding:0.5rem 1.5rem;border:none;'' @
     (''background:#0d6efd;color:#fff;border-radius:6px;cursor:pointer">'' @ ko_reload @ ''</button></div></body></html>'')\<close>

definition offline_page :: response where
  "offline_page = new_Response offline_html None [(''Content-Type'', ''text/html; charset=UTF-8'')]"

subsection \<open>The two strategies\<close>

text \<open>
  Each strategy returns the promise the \<^verbatim>\<open>async\<close> function settles to, the cache
  storage afterwards, and the platform calls made. \<^verbatim>\<open>try { await fetch } catch\<close> is
  the case distinction on what the fetch settles to. The \<^verbatim>\<open>cache.put\<close> is not
  awaited in the source; the model takes the write as done when the handler is.
\<close>

definition cacheFirst :: "network \<Rightarrow> cache_storage \<Rightarrow> request \<Rightarrow> response promise \<times> cache_storage \<times> event list" where
  "cacheFirst net s r =
     (case caches_match s r of
        Some cached \<Rightarrow> (Fulfilled cached, s, [Match r])
      | None \<Rightarrow>
          (case net r of
             Fulfilled resp \<Rightarrow>
               (if ok resp
                then (Fulfilled resp,
                      cache_put CACHE_NAME r resp (caches_open CACHE_NAME s),
                      [Match r, Fetch r, Open CACHE_NAME, Put CACHE_NAME r resp])
                else (Fulfilled resp, s, [Match r, Fetch r]))
           | Rejected \<Rightarrow> (Fulfilled (new_Response [] (Some 503) []), s, [Match r, Fetch r])))"

definition networkFirst :: "network \<Rightarrow> cache_storage \<Rightarrow> request \<Rightarrow> response promise \<times> cache_storage \<times> event list" where
  "networkFirst net s r =
     (case net r of
        Fulfilled resp \<Rightarrow>
          (if ok resp
           then (Fulfilled resp,
                 cache_put CACHE_NAME r resp (caches_open CACHE_NAME s),
                 [Fetch r, Open CACHE_NAME, Put CACHE_NAME r resp])
           else (Fulfilled resp, s, [Fetch r]))
      | Rejected \<Rightarrow>
          (case caches_match s r of
             Some cached \<Rightarrow> (Fulfilled cached, s, [Fetch r, Match r])
           | None \<Rightarrow> (Fulfilled offline_page, s, [Fetch r, Match r])))"

text \<open>
  What the page gets for an intercepted request. Where the listener returns without
  \<^verbatim>\<open>event.respondWith\<close>, the browser performs the request itself, as if there were no
  worker: one fetch, whose outcome (a rejection included) goes to the page as it is.
\<close>

definition handle :: "network \<Rightarrow> cache_storage \<Rightarrow> request \<Rightarrow> response promise \<times> cache_storage \<times> event list" where
  "handle net s r =
     (case classify r of
        NonCacheable \<Rightarrow> (net r, s, [Fetch r])
      | ThirdPartyAsset \<Rightarrow> cacheFirst net s r
      | StaticAsset \<Rightarrow> cacheFirst net s r
      | Navigational \<Rightarrow> networkFirst net s r)"

subsection \<open>Install and activate\<close>

text \<open>
  \<^verbatim>\<open>cache.addAll(urls)\<close> makes a GET request of every URL, resolved against the
  location of the worker (an http or https URL: the platform runs no worker from
  another), and fetches them all. It is all or nothing: the responses are stored when
  every fetch resolved with a response it accepts, one with an ok status that is neither
  partial (206) nor varies on \<^verbatim>\<open>*\<close>; otherwise the promise is rejected and
  nothing is stored.
\<close>

definition precache_request :: "url \<Rightarrow> string \<Rightarrow> request" where
  "precache_request base p = \<lparr>method = ''GET'', url = base\<lparr>pathname := p, search := []\<rparr>\<rparr>"

definition fetchable :: "network \<Rightarrow> request \<Rightarrow> bool" where
  "fetchable net r =
     (case net r of
        Fulfilled resp \<Rightarrow> ok resp \<and> status resp \<noteq> 206 \<and> \<not> vary_star resp
      | Rejected \<Rightarrow> False)"

definition put_fetched :: "network \<Rightarrow> string \<Rightarrow> request \<Rightarrow> cache_storage \<Rightarrow> cache_storage" where
  "put_fetched net name r s =
     (case net r of Fulfilled resp \<Rightarrow> cache_write name r resp s | Rejected \<Rightarrow> s)"

definition put_events :: "network \<Rightarrow> string \<Rightarrow> request \<Rightarrow> event list" where
  "put_events net name r =
     (case net r of Fulfilled resp \<Rightarrow> [Put name r resp] | Rejected \<Rightarrow> [])"

definition cache_addAll :: "network \<Rightarrow> string \<Rightarrow> request list \<Rightarrow> cache_storage \<Rightarrow> unit promise \<times> cache_storage \<times> event list" where
  "cache_addAll net name rs s =
     (if list_all (fetchable net) rs
      then (Fulfilled (), fold (put_fetched net name) rs s,
            map Fetch rs @ concat (map (put_events net name) rs))
      else (Rejected, s, map Fetch rs))"

text \<open>
  The install listener: open the cache of this version, add the precache list, and on a
  rejection warn and carry on (\<^verbatim>\<open>.catch\<close> turns the rejection into a fulfilled
  promise). The promise returned is the one given to \<^verbatim>\<open>event.waitUntil\<close>: the
  installation fails exactly when it is rejected.
\<close>

definition install :: "network \<Rightarrow> url \<Rightarrow> cache_storage \<Rightarrow> unit promise \<times> cache_storage \<times> event list" where
  "install net base s =
     (case cache_addAll net CACHE_NAME (map (precache_request base) PRECACHE_URLS)
             (caches_open CACHE_NAME s) of
        (Fulfilled u, s', es) \<Rightarrow> (Fulfilled u, s', Open CACHE_NAME # es)
      | (Rejected, s', es) \<Rightarrow> (Fulfilled (), s', Open CACHE_NAME # es @ [Warn]))"

text \<open>The activate listener: delete every cache whose name is not the one of this version.\<close>

definition activate :: "cache_storage \<Rightarrow> unit promise \<times> cache_storage \<times> event list" where
  "activate s =
     (let names = filter (\<lambda>name. name \<noteq> CACHE_NAME) (caches_keys s)
      in (Fulfilled (), fold caches_delete names s, Keys # map Delete names))"

text \<open>The three components of what an operation returns.\<close>

definition result :: "'a \<times> cache_storage \<times> event list \<Rightarrow> 'a" where
  "result x = fst x"

definition storage :: "'a \<times> cache_storage \<times> event list \<Rightarrow> cache_storage" where
  "storage x = fst (snd x)"

definition events :: "'a \<times> cache_storage \<times> event list \<Rightarrow> event list" where
  "events x = snd (snd x)"

text \<open>A run of the active worker: intercepted requests handled one after the other, each
  against the network as it is at that moment.\<close>

fun serve :: "cache_storage \<Rightarrow> (network \<times> request) list \<Rightarrow> cache_storage" where
  "serve s [] = s"
| "serve s ((net, r) # rest) = serve (storage (handle net s r)) rest"

subsection \<open>Notions used in the properties\<close>

text \<open>After activation the storage holds no cache of another version.\<close>

definition activated :: "cache_storage \<Rightarrow> bool" where
  "activated s \<longleftrightarrow> list_all (\<lambda>name. name = CACHE_NAME) (caches_keys s)"

text \<open>
  No cache of the storage is older than the one of this version. Activation leaves the
  storage so, and a cache created later comes after it in the list.
\<close>

definition current_first :: "cache_storage \<Rightarrow> bool" where
  "current_first s \<longleftrightarrow> (case caches_keys s of [] \<Rightarrow> True | name # older \<Rightarrow> name = CACHE_NAME)"

text \<open>The strategy the listener answers a request with.\<close>

definition cache_first_class :: "request \<Rightarrow> bool" where
  "cache_first_class r \<longleftrightarrow> classify r = StaticAsset \<or> classify r = ThirdPartyAsset"

text \<open>Every entry of \<open>s'\<close> has an ok status or was already an entry of \<open>s\<close>.\<close>

definition only_ok_added :: "cache_storage \<Rightarrow> cache_storage \<Rightarrow> bool" where
  "only_ok_added s s' \<longleftrightarrow>
     (\<forall>(n, c') \<in> set s'. \<forall>k x. c' k = Some x \<longrightarrow>
        ok x \<or> (\<exists>c. (n, c) \<in> set s \<and> c k = Some x))"

text \<open>Every write among the events stores an ok response.\<close>

fun ok_write :: "event \<Rightarrow> bool" where
  "ok_write (Put n k x) = ok x"
| "ok_write _ = True"

text \<open>
  The classifier in the words of the specification: an ordered list of rules, each a test
  with a category, the first rule whose test holds gives the category, and the request is
  navigational when none does. The read method is GET, and the host allowlist is a set of
  host names: a host matches it when it is one of them.
\<close>

fun first_match :: "(('a \<Rightarrow> bool) \<times> 'b) list \<Rightarrow> 'b \<Rightarrow> 'a \<Rightarrow> 'b" where
  "first_match [] d x = d"
| "first_match ((t, c) # rules) d x = (if t x then c else first_match rules d x)"

definition non_read_method :: "request \<Rightarrow> bool" where
  "non_read_method r \<longleftrightarrow> method r \<noteq> ''GET''"

definition under_api_prefix :: "request \<Rightarrow> bool" where
  "under_api_prefix r \<longleftrightarrow> prefix ''/api/'' (pathname (url r))"

definition host_allowlisted :: "request \<Rightarrow> bool" where
  "host_allowlisted r \<longleftrightarrow> hostname (url r) \<in> set CDN_HOSTS"

definition under_static_prefix :: "request \<Rightarrow> bool" where
  "under_static_prefix r \<longleftrightarrow> prefix ''/static/'' (pathname (url r))"

definition classifier_rules :: "((request \<Rightarrow> bool) \<times> category) list" where
  "classifier_rules =
     [(non_read_method, NonCacheable),
      (under_api_prefix, NonCacheable),
      (host_allowlisted, ThirdPartyAsset),
      (under_static_prefix, StaticAsset)]"

definition classify_spec :: "request \<Rightarrow> category" where
  "classify_spec r = first_match classifier_rules Navigational r"

text \<open>
  The same ordered rules with the third one read as the listener tests it: the host name
  contains one of the listed names somewhere.
\<close>

definition host_contains_listed :: "request \<Rightarrow> bool" where
  "host_contains_listed r \<longleftrightarrow> (\<exists>h \<in> set CDN_HOSTS. sublist h (hostname (url r)))"

definition containment_rules :: "((request \<Rightarrow> bool) \<times> category) list" where
  "containment_rules =
     [(non_read_method, NonCacheable),
      (under_api_prefix, NonCacheable),
      (host_contains_listed, ThirdPartyAsset),
      (under_static_prefix, StaticAsset)]"

text \<open>Fixtures for concrete runs: an application origin, requests, networks.\<close>

definition app_origin :: url where
  "app_origin = \<lparr>protocol = ''https:'', hostname = ''logisfit.example'', port = [],
                  pathname = ''/'', search = []\<rparr>"

definition GET :: "string \<Rightarrow> request" where
  "GET p = \<lparr>method = ''GET'', url = app_origin\<lparr>pathname := p\<rparr>\<rparr>"

definition POST :: "string \<Rightarrow> request" where
  "POST p = \<lparr>method = ''POST'', url = app_origin\<lparr>pathname := p\<rparr>\<rparr>"

definition GET_from :: "string \<Rightarrow> string \<Rightarrow> request" where
  "GET_from host p = \<lparr>method = ''GET'', url = app_origin\<lparr>hostname := host, pathname := p\<rparr>\<rparr>"

definition offline :: network where
  "offline r = Rejected"

definition serving :: "response \<Rightarrow> network" where
  "serving resp r = Fulfilled resp"

definition page_200 :: response where
  "page_200 = \<lparr>status = 200, headers = [], body = ''hello''\<rparr>"

definition page_206 :: response where
  "page_206 = \<lparr>status = 206, headers = [(''Content-Range'', ''bytes 0-4/10'')], body = ''hello''\<rparr>"

definition page_vary_star :: response where
  "page_vary_star = \<lparr>status = 200, headers = [(''Vary'', ''Accept, *'')], body = ''hello''\<rparr>"

definition page_404 :: response where
  "page_404 = \<lparr>status = 404, headers = [], body = ''Not Found''\<rparr>"

definition page_500 :: response where
  "page_500 = \<lparr>status = 500, headers = [], body = ''Server Error''\<rparr>"

definition favicon_missing :: network where
  "favicon_missing r =
     (if pathname (url r) = ''/static/images/favicon.ico'' then Fulfilled page_404
      else Fulfilled page_200)"

section \<open>Properties\<close>

subsection \<open>The cache storage operations\<close>

lemma caches_keys_open: "name \<in> set (caches_keys (caches_open name s))"
  by (simp add: caches_open_def caches_keys_def)

lemma caches_keys_write: "caches_keys (cache_write name r resp s) = caches_keys s"
  by (induction s) (auto simp: cache_write_def caches_keys_def)

lemma entry_write_same:
  "name \<in> set (caches_keys s) \<Longrightarrow> entry (cache_write name r resp s) name r = Some resp"
  by (induction s) (auto simp: cache_write_def caches_keys_def entry_def)

lemma entry_write_other:
  "k \<noteq> r \<Longrightarrow> entry (cache_write name r resp s) n k = entry s n k"
proof (induction s)
  case Nil
  then show ?case by (simp add: cache_write_def entry_def)
next
  case (Cons a s)
  obtain m c where a: "a = (m, c)" by (cases a)
  from Cons show ?case
    by (cases "m = n") (auto simp: a cache_write_def entry_def)
qed




lemma caches_keys_put: "caches_keys (cache_put name r resp s) = caches_keys s"
  by (simp add: cache_put_def caches_keys_write)

lemma entry_put_same:
  "\<not> put_refused r resp \<Longrightarrow> name \<in> set (caches_keys s) \<Longrightarrow>
   entry (cache_put name r resp s) name r = Some resp"
  by (simp add: cache_put_def entry_write_same)



lemma cache_put_refused: "put_refused r resp \<Longrightarrow> cache_put name r resp s = s"
  by (simp add: cache_put_def)

subsection \<open>The classifier\<close>

lemma classify_containment: "classify r = first_match containment_rules Navigational r"
  by (simp add: classify_def containment_rules_def non_read_method_def
      under_api_prefix_def host_contains_listed_def under_static_prefix_def startsWith_def
      str_includes_def list_ex_iff)

lemma host_allowlisted_contains: "host_allowlisted r \<Longrightarrow> host_contains_listed r"
  by (auto simp: host_allowlisted_def host_contains_listed_def)

lemma classify_spec_agrees:
  "(host_contains_listed r \<longrightarrow> host_allowlisted r) \<Longrightarrow> classify r = classify_spec r"
  using host_allowlisted_contains [of r]
  by (auto simp: classify_containment classify_spec_def containment_rules_def classifier_rules_def)

text \<open>
  Claim C3, as amended. The classification of a request depends on its method and URL
  only and is one of the four categories. It is the first match of the ordered rules: a
  method other than GET gives non-cacheable, a path under \<^verbatim>\<open>/api/\<close> gives
  non-cacheable, a host name that contains one of the listed CDN host names gives
  third-party asset, a path under \<^verbatim>\<open>/static/\<close> gives static asset, anything else
  is navigational. It agrees with the classifier of the specification on every request
  whose host name, if it contains a listed name, is a listed name. POST and GET of
  \<^verbatim>\<open>/api/orders\<close> are non-cacheable on every host; on a host whose name contains no
  listed name, GET of \<^verbatim>\<open>/static/app.js\<close> is a static asset and GET of
  \<^verbatim>\<open>/dashboard\<close> is navigational.
\<close>

theorem classify_first_match:
  "classify r = first_match containment_rules Navigational r
   \<and> ((host_contains_listed r \<longrightarrow> host_allowlisted r) \<longrightarrow> classify r = classify_spec r)
   \<and> classify \<lparr>method = ''POST'', url = u\<lparr>pathname := ''/api/orders''\<rparr>\<rparr> = NonCacheable
   \<and> classify \<lparr>method = ''GET'', url = u\<lparr>pathname := ''/api/orders''\<rparr>\<rparr> = NonCacheable
   \<and> (\<not> list_ex (str_includes (hostname u)) CDN_HOSTS \<longrightarrow>
        classify \<lparr>method = ''GET'', url = u\<lparr>pathname := ''/static/app.js''\<rparr>\<rparr> = StaticAsset
      \<and> classify \<lparr>method = ''GET'', url = u\<lparr>pathname := ''/dashboard''\<rparr>\<rparr> = Navigational)"
proof (intro conjI impI)
  show "classify r = first_match containment_rules Navigational r"
    by (rule classify_containment)
  show "classify r = classify_spec r" if "host_contains_listed r \<longrightarrow> host_allowlisted r"
    using that by (rule classify_spec_agrees)
qed (simp_all add: classify_def startsWith_def)

theorem classify_first_match_witness:
  "host_contains_listed (GET_from ''fonts.gstatic.com'' ''/s/font.woff2'')
   \<and> host_allowlisted (GET_from ''fonts.gstatic.com'' ''/s/font.woff2'')
   \<and> classify (GET_from ''fonts.gstatic.com'' ''/s/font.woff2'') = ThirdPartyAsset
   \<and> classify_spec (GET_from ''fonts.gstatic.com'' ''/s/font.woff2'') = ThirdPartyAsset
   \<and> \<not> list_ex (str_includes (hostname app_origin)) CDN_HOSTS
   \<and> classify (GET ''/static/app.js'') = StaticAsset
   \<and> classify (GET ''/dashboard'') = Navigational"
  using classify_first_match [of "GET_from ''fonts.gstatic.com'' ''/s/font.woff2''" app_origin]
  by (simp add: GET_def GET_from_def app_origin_def CDN_HOSTS_def str_includes_def sublist_code(3)
      host_allowlisted_def host_contains_listed_def classify_spec_def classifier_rules_def
      containment_rules_def non_read_method_def under_api_prefix_def)

text \<open>
  With the allowlist read as a set of host names, as the specification has it, the
  listener and the ordered rules differ on a host that is not listed but whose name
  contains a listed one: the listener answers its pages cache-first.
\<close>

theorem classify_first_match_counterexample:
  "classify (GET_from ''cdn.jsdelivr.net.evil.example'' ''/dashboard'') = ThirdPartyAsset
   \<and> \<not> host_allowlisted (GET_from ''cdn.jsdelivr.net.evil.example'' ''/dashboard'')
   \<and> classify_spec (GET_from ''cdn.jsdelivr.net.evil.example'' ''/dashboard'') = Navigational"
  by (simp add: classify_def classify_spec_def classifier_rules_def non_read_method_def
      under_api_prefix_def host_allowlisted_def under_static_prefix_def startsWith_def
      str_includes_def GET_from_def app_origin_def CDN_HOSTS_def sublist_code(3))

subsection \<open>Requests left to the browser\<close>

text \<open>
  Claim C7. A request whose method is not GET, and a request whose path is under
  \<^verbatim>\<open>/api/\<close> whatever its method, goes to the network as it is: the page gets what
  the one fetch settles to, the cache storage is neither read nor written.
\<close>

theorem pass_through:
  "method r \<noteq> ''GET'' \<or> startsWith (pathname (url r)) ''/api/'' \<Longrightarrow>
   handle net s r = (net r, s, [Fetch r])"
  by (auto simp: handle_def classify_def)

theorem pass_through_witness:
  "method (POST ''/orders/new'') \<noteq> ''GET''
   \<and> handle (serving page_200) [(CACHE_NAME, Map.empty)] (POST ''/orders/new'')
       = (Fulfilled page_200, [(CACHE_NAME, Map.empty)], [Fetch (POST ''/orders/new'')])
   \<and> startsWith (pathname (url (GET ''/api/orders''))) ''/api/''
   \<and> handle offline [] (GET ''/api/orders'') = (Rejected, [], [Fetch (GET ''/api/orders'')])"
  using pass_through [of "POST ''/orders/new''" "serving page_200" "[(CACHE_NAME, Map.empty)]"]
    pass_through [of "GET ''/api/orders''" offline "[]"]
  by (simp add: POST_def GET_def serving_def offline_def startsWith_def)

subsection \<open>Network first\<close>

text \<open>
  Claim C10. When the fetch of a navigational request resolves with a status that is not
  ok, the page gets that response as it is; nothing is stored, the cache storage is not
  asked and the offline page is not built.
\<close>

theorem network_first_error_status:
  "classify r = Navigational \<Longrightarrow> net r = Fulfilled resp \<Longrightarrow> \<not> ok resp \<Longrightarrow>
   handle net s r = (Fulfilled resp, s, [Fetch r])"
  by (simp add: handle_def networkFirst_def)

theorem network_first_error_status_witness:
  "classify (GET ''/dashboard'') = Navigational
   \<and> serving page_500 (GET ''/dashboard'') = Fulfilled page_500
   \<and> \<not> ok page_500
   \<and> handle (serving page_500) [(CACHE_NAME, [GET ''/dashboard'' \<mapsto> page_200])] (GET ''/dashboard'')
      = (Fulfilled page_500, [(CACHE_NAME, [GET ''/dashboard'' \<mapsto> page_200])], [Fetch (GET ''/dashboard'')])"
  using network_first_error_status [of "GET ''/dashboard''" "serving page_500" page_500
      "[(CACHE_NAME, [GET ''/dashboard'' \<mapsto> page_200])]"]
  by (simp add: classify_def GET_def app_origin_def CDN_HOSTS_def startsWith_def
      str_includes_def sublist_code(3) serving_def page_500_def ok_def)

lemma page_vary_star_refused: "vary_star page_vary_star"
  by code_simp

text \<open>
  Claim C1, as amended. A navigational request is fetched first. When the fetch resolves
  with an ok status, the page gets the live response, and a copy is stored for the
  request in the cache of this version if the cache accepts the write; if it refuses
  (a partial response with status 206, a response that varies on \<^verbatim>\<open>*\<close>, a
  request that is not http or https), the page still gets the live response and nothing
  is stored. When the fetch is rejected, the page gets the cached response for the
  request if there is one, and the offline page otherwise.
\<close>

theorem network_first:
  assumes "classify r = Navigational"
  shows "(net r = Fulfilled resp \<and> ok resp \<longrightarrow>
            result (handle net s r) = Fulfilled resp
          \<and> events (handle net s r) = [Fetch r, Open CACHE_NAME, Put CACHE_NAME r resp]
          \<and> (\<not> put_refused r resp \<longrightarrow>
                entry (storage (handle net s r)) CACHE_NAME r = Some resp)
          \<and> (put_refused r resp \<longrightarrow> storage (handle net s r) = caches_open CACHE_NAME s))
       \<and> (net r = Rejected \<and> caches_match s r = Some cached \<longrightarrow>
            handle net s r = (Fulfilled cached, s, [Fetch r, Match r]))
       \<and> (net r = Rejected \<and> caches_match s r = None \<longrightarrow>
            handle net s r = (Fulfilled offline_page, s, [Fetch r, Match r]))"
  using assms
  by (simp add: handle_def networkFirst_def result_def storage_def events_def
      entry_put_same caches_keys_open cache_put_refused)

theorem network_first_witness:
  "classify (GET ''/dashboard'') = Navigational
   \<and> serving page_200 (GET ''/dashboard'') = Fulfilled page_200 \<and> ok page_200
   \<and> \<not> put_refused (GET ''/dashboard'') page_200
   \<and> result (handle (serving page_200) [] (GET ''/dashboard'')) = Fulfilled page_200
   \<and> entry (storage (handle (serving page_200) [] (GET ''/dashboard''))) CACHE_NAME (GET ''/dashboard'')
       = Some page_200
   \<and> serving page_206 (GET ''/dashboard'') = Fulfilled page_206 \<and> ok page_206
   \<and> put_refused (GET ''/dashboard'') page_206
   \<and> storage (handle (serving page_206) [] (GET ''/dashboard'')) = [(CACHE_NAME, Map.empty)]
   \<and> offline (GET ''/dashboard'') = Rejected
   \<and> caches_match [(CACHE_NAME, [GET ''/dashboard'' \<mapsto> page_200])] (GET ''/dashboard'') = Some page_200
   \<and> result (handle offline [(CACHE_NAME, [GET ''/dashboard'' \<mapsto> page_200])] (GET ''/dashboard''))
       = Fulfilled page_200
   \<and> caches_match [] (GET ''/dashboard'') = None
   \<and> result (handle offline [] (GET ''/dashboard'')) = Fulfilled offline_page"
  using network_first [of "GET ''/dashboard''" "serving page_200" page_200 "[]" page_200]
    network_first [of "GET ''/dashboard''" "serving page_206" page_206 "[]" page_200]
    network_first [of "GET ''/dashboard''" offline page_200
      "[(CACHE_NAME, [GET ''/dashboard'' \<mapsto> page_200])]" page_200]
    network_first [of "GET ''/dashboard''" offline page_200 "[]" page_200]
  by (simp add: classify_def GET_def app_origin_def CDN_HOSTS_def startsWith_def
      str_includes_def sublist_code(3) serving_def offline_def page_200_def page_206_def
      ok_def result_def put_refused_def vary_star_def caches_open_def caches_keys_def)

text \<open>
  Without the condition on the write the claim fails: an ok response with status 206,
  or one that varies on \<^verbatim>\<open>*\<close>, goes to the page and is not stored.
\<close>

theorem network_first_counterexample:
  "classify (GET ''/dashboard'') = Navigational
   \<and> serving page_206 (GET ''/dashboard'') = Fulfilled page_206 \<and> ok page_206
   \<and> result (handle (serving page_206) [] (GET ''/dashboard'')) = Fulfilled page_206
   \<and> entry (storage (handle (serving page_206) [] (GET ''/dashboard''))) CACHE_NAME (GET ''/dashboard'')
       = None
   \<and> serving page_vary_star (GET ''/dashboard'') = Fulfilled page_vary_star \<and> ok page_vary_star
   \<and> result (handle (serving page_vary_star) [] (GET ''/dashboard'')) = Fulfilled page_vary_star
   \<and> entry (storage (handle (serving page_vary_star) [] (GET ''/dashboard''))) CACHE_NAME
        (GET ''/dashboard'') = None"
proof -
  have nav: "classify (GET ''/dashboard'') = Navigational"
    by (simp add: classify_def GET_def app_origin_def CDN_HOSTS_def startsWith_def
        str_includes_def sublist_code(3))
  have "put_refused (GET ''/dashboard'') page_206"
    by (simp add: put_refused_def page_206_def)
  moreover have "put_refused (GET ''/dashboard'') page_vary_star"
    by (simp add: put_refused_def page_vary_star_refused)
  moreover have "ok page_206" "ok page_vary_star"
    by (simp_all add: ok_def page_206_def page_vary_star_def)
  ultimately show ?thesis
    using nav
    by (simp add: handle_def networkFirst_def result_def storage_def serving_def
        cache_put_refused caches_open_def caches_keys_def entry_def)
qed

subsection \<open>Cache first\<close>

lemma activated_current_first: "activated s \<Longrightarrow> current_first s"
  by (cases s) (auto simp: activated_def current_first_def caches_keys_def)


lemma current_first_open: "current_first s \<Longrightarrow> current_first (caches_open CACHE_NAME s)"
  by (cases s) (auto simp: current_first_def caches_open_def caches_keys_def)

lemma current_first_put: "current_first (cache_put name r resp s) = current_first s"
  by (simp add: current_first_def caches_keys_put)

lemma current_first_handle: "current_first s \<Longrightarrow> current_first (storage (handle net s r))"
  by (auto simp: handle_def cacheFirst_def networkFirst_def storage_def current_first_open
      current_first_put split: category.splits option.splits promise.splits)

lemma current_first_serve: "current_first s \<Longrightarrow> current_first (serve s later)"
  by (induction later arbitrary: s) (auto simp: current_first_handle)

lemma activated_open: "activated s \<Longrightarrow> activated (caches_open CACHE_NAME s)"
  by (simp add: activated_def caches_open_def caches_keys_def)

lemma activated_put: "activated (cache_put name r resp s) = activated s"
  by (simp add: activated_def caches_keys_put)

lemma activated_handle: "activated s \<Longrightarrow> activated (storage (handle net s r))"
  by (auto simp: handle_def cacheFirst_def networkFirst_def storage_def activated_open
      activated_put split: category.splits option.splits promise.splits)









text \<open>
  The lookup is \<^verbatim>\<open>caches.match\<close> on the whole storage, so the first part needs the
  cache of this version to be the oldest one: an older cache with an entry for the same
  request would answer first.
\<close>

lemma stale_cache_shadows:
  "entry [(''logisfit-v0'', [GET ''/static/app.js'' \<mapsto> page_404]),
          (CACHE_NAME, [GET ''/static/app.js'' \<mapsto> page_200])] CACHE_NAME (GET ''/static/app.js'')
     = Some page_200
   \<and> result (handle offline
        [(''logisfit-v0'', [GET ''/static/app.js'' \<mapsto> page_404]),
         (CACHE_NAME, [GET ''/static/app.js'' \<mapsto> page_200])] (GET ''/static/app.js''))
     = Fulfilled page_404"
  by (simp add: classify_def GET_def app_origin_def CDN_HOSTS_def
      startsWith_def str_includes_def sublist_code(3) result_def entry_def CACHE_NAME_def
      handle_def cacheFirst_def)

text \<open>
  Claim C5, as amended. A request answered by \<open>cacheFirst\<close> that is not in the cache
  storage: when the fetch is rejected, the page gets a response built by the worker, with
  an empty body and status 503; when the fetch resolves with a status that is not ok, the
  page gets that live response as it is, and nothing is stored. In no case is the promise
  given to the page rejected.
\<close>

theorem cache_first_miss_failure:
  assumes "cache_first_class r" and "caches_match s r = None"
  shows "(net r = Rejected \<longrightarrow>
            handle net s r = (Fulfilled (new_Response [] (Some 503) []), s, [Match r, Fetch r])
          \<and> body (new_Response [] (Some 503) []) = [] \<and> status (new_Response [] (Some 503) []) = 503)
       \<and> (net r = Fulfilled resp \<and> \<not> ok resp \<longrightarrow>
            handle net s r = (Fulfilled resp, s, [Match r, Fetch r]))
       \<and> result (handle net s r) \<noteq> Rejected"
  using assms
  by (auto simp: cache_first_class_def handle_def cacheFirst_def new_Response_def result_def
      split: promise.splits if_splits)

theorem cache_first_miss_failure_witness:
  "cache_first_class (GET ''/static/app.js'')
   \<and> caches_match [] (GET ''/static/app.js'') = None
   \<and> offline (GET ''/static/app.js'') = Rejected
   \<and> handle offline [] (GET ''/static/app.js'')
       = (Fulfilled \<lparr>status = 503, headers = [], body = []\<rparr>, [],
          [Match (GET ''/static/app.js''), Fetch (GET ''/static/app.js'')])
   \<and> serving page_404 (GET ''/static/app.js'') = Fulfilled page_404 \<and> \<not> ok page_404
   \<and> handle (serving page_404) [] (GET ''/static/app.js'')
       = (Fulfilled page_404, [],
          [Match (GET ''/static/app.js''), Fetch (GET ''/static/app.js'')])"
  using cache_first_miss_failure [of "GET ''/static/app.js''" "[]" offline page_404]
    cache_first_miss_failure [of "GET ''/static/app.js''" "[]" "serving page_404" page_404]
  by (simp add: cache_first_class_def classify_def GET_def app_origin_def CDN_HOSTS_def
      startsWith_def str_includes_def sublist_code(3) serving_def offline_def page_404_def
      ok_def new_Response_def)

text \<open>
  The claim as first stated also promised the built 503 response when the fetch resolves
  with a status that is not ok. A static asset that the server answers with 404 shows the
  difference: the page gets the 404 response.
\<close>

theorem cache_first_miss_failure_counterexample:
  "classify (GET ''/static/app.js'') = StaticAsset
   \<and> caches_match [] (GET ''/static/app.js'') = None
   \<and> serving page_404 (GET ''/static/app.js'') = Fulfilled page_404
   \<and> \<not> ok page_404
   \<and> result (handle (serving page_404) [] (GET ''/static/app.js'')) = Fulfilled page_404
   \<and> Fulfilled page_404 \<noteq> Fulfilled (new_Response [] (Some 503) [])"
  by (simp add: classify_def GET_def app_origin_def CDN_HOSTS_def startsWith_def
      str_includes_def sublist_code(3) serving_def page_404_def ok_def result_def
      handle_def cacheFirst_def new_Response_def)

subsection \<open>Only ok responses are stored\<close>

lemma only_ok_added_refl: "only_ok_added s s"
  by (auto simp: only_ok_added_def)

lemma only_ok_addedD:
  "only_ok_added s s' \<Longrightarrow> (n, c') \<in> set s' \<Longrightarrow> c' k = Some x \<Longrightarrow>
   ok x \<or> (\<exists>c. (n, c) \<in> set s \<and> c k = Some x)"
  unfolding only_ok_added_def by fast

lemma only_ok_addedI:
  assumes "\<And>n c' k x. (n, c') \<in> set s' \<Longrightarrow> c' k = Some x \<Longrightarrow>
             ok x \<or> (\<exists>c. (n, c) \<in> set s \<and> c k = Some x)"
  shows "only_ok_added s s'"
  unfolding only_ok_added_def using assms by fast

lemma only_ok_added_open: "only_ok_added s s' \<Longrightarrow> only_ok_added s (caches_open name s')"
  by (auto simp: only_ok_added_def caches_open_def)

lemma only_ok_added_write:
  assumes "only_ok_added s s'" and "ok resp"
  shows "only_ok_added s (cache_write name r resp s')"
proof (rule only_ok_addedI)
  fix n c' k x
  assume mem: "(n, c') \<in> set (cache_write name r resp s')" and hit: "c' k = Some x"
  from mem obtain c where c: "(n, c) \<in> set s'" and c': "c' = c \<or> c' = c(r \<mapsto> resp)"
    by (auto simp: cache_write_def split: if_splits)
  show "ok x \<or> (\<exists>c. (n, c) \<in> set s \<and> c k = Some x)"
  proof (cases "c k = Some x")
    case True
    with only_ok_addedD [OF assms(1) c] show ?thesis by simp
  next
    case False
    with c' hit have "x = resp" by (auto split: if_splits)
    with assms(2) show ?thesis by simp
  qed
qed

lemma only_ok_added_put:
  "only_ok_added s s' \<Longrightarrow> ok resp \<Longrightarrow> only_ok_added s (cache_put name r resp s')"
  by (simp add: cache_put_def only_ok_added_write)

lemma only_ok_added_fold:
  assumes "list_all (fetchable net) rs" and "only_ok_added s s'"
  shows "only_ok_added s (fold (put_fetched net name) rs s')"
  using assms
proof (induction rs arbitrary: s')
  case Nil
  then show ?case by simp
next
  case (Cons a rs)
  from Cons.prems have "only_ok_added s (put_fetched net name a s')"
    by (auto simp: put_fetched_def fetchable_def only_ok_added_write split: promise.splits)
  with Cons show ?case by simp
qed

lemma ok_write_put_events:
  "list_all (fetchable net) rs \<Longrightarrow> list_all ok_write (concat (map (put_events net name) rs))"
  by (induction rs) (auto simp: put_events_def fetchable_def split: promise.splits)

lemma ok_write_fetches: "list_all ok_write (map Fetch rs)"
  by (induction rs) auto

lemma cacheFirst_only_ok:
  "only_ok_added s (storage (cacheFirst net s r)) \<and> list_all ok_write (events (cacheFirst net s r))"
  by (auto simp: cacheFirst_def storage_def events_def only_ok_added_refl only_ok_added_put
      only_ok_added_open split: option.splits promise.splits)

lemma networkFirst_only_ok:
  "only_ok_added s (storage (networkFirst net s r)) \<and> list_all ok_write (events (networkFirst net s r))"
  by (auto simp: networkFirst_def storage_def events_def only_ok_added_refl only_ok_added_put
      only_ok_added_open split: option.splits promise.splits)

lemma cache_addAll_only_ok:
  assumes "only_ok_added s s'"
  shows "only_ok_added s (storage (cache_addAll net name rs s'))
         \<and> list_all ok_write (events (cache_addAll net name rs s'))"
  using assms
  by (simp add: cache_addAll_def storage_def events_def only_ok_added_fold
      ok_write_put_events ok_write_fetches)

lemma storage_install_addAll:
  "storage (install net base s)
   = storage (cache_addAll net CACHE_NAME (map (precache_request base) PRECACHE_URLS)
       (caches_open CACHE_NAME s))"
  by (simp add: install_def storage_def split: prod.splits promise.splits)

lemma events_install_addAll:
  "events (install net base s)
   = Open CACHE_NAME
     # events (cache_addAll net CACHE_NAME (map (precache_request base) PRECACHE_URLS)
         (caches_open CACHE_NAME s))
     @ (if list_all (fetchable net) (map (precache_request base) PRECACHE_URLS) then [] else [Warn])"
  by (simp add: install_def cache_addAll_def events_def)

lemma install_only_ok:
  "only_ok_added s (storage (install net base s)) \<and> list_all ok_write (events (install net base s))"
  using cache_addAll_only_ok [OF only_ok_added_open [OF only_ok_added_refl], of s net CACHE_NAME
      "map (precache_request base) PRECACHE_URLS" CACHE_NAME]
  by (simp add: storage_install_addAll events_install_addAll)

text \<open>
  Claim C4. Whatever \<open>cacheFirst\<close>, \<open>networkFirst\<close> and the install step leave in the
  cache storage, every entry has an ok status or was an entry of the same cache before;
  and every write they make stores a response with an ok status.
\<close>

theorem only_ok_responses_stored:
  "only_ok_added s (storage (cacheFirst net s r))
   \<and> list_all ok_write (events (cacheFirst net s r))
   \<and> only_ok_added s (storage (networkFirst net s r))
   \<and> list_all ok_write (events (networkFirst net s r))
   \<and> only_ok_added s (storage (install net base s))
   \<and> list_all ok_write (events (install net base s))"
  by (simp add: cacheFirst_only_ok networkFirst_only_ok install_only_ok)

theorem only_ok_responses_stored_witness:
  "(CACHE_NAME, [GET ''/static/app.js'' \<mapsto> page_200])
      \<in> set (storage (cacheFirst (serving page_200) [] (GET ''/static/app.js'')))
   \<and> [GET ''/static/app.js'' \<mapsto> page_200] (GET ''/static/app.js'') = Some page_200
   \<and> ok page_200
   \<and> only_ok_added [] (storage (cacheFirst (serving page_200) [] (GET ''/static/app.js'')))
   \<and> storage (cacheFirst (serving page_404) [] (GET ''/static/app.js'')) = []
   \<and> storage (networkFirst (serving page_500) [] (GET ''/dashboard'')) = []"
  using only_ok_responses_stored [of "[]" "serving page_200" "GET ''/static/app.js''" app_origin]
  by (simp add: cacheFirst_def networkFirst_def storage_def serving_def page_200_def page_404_def
      page_500_def ok_def caches_open_def caches_keys_def cache_put_def cache_write_def
      put_refused_def vary_star_def GET_def app_origin_def)

subsection \<open>Install and activate\<close>

text \<open>
  Claim C9. The promise the install listener hands to the platform is always fulfilled.
  When some resource of the precache list cannot be fetched, the step opens the cache,
  tries every fetch, stores nothing, and ends with the warning.
\<close>

theorem install_never_fails:
  "result (install net base s) = Fulfilled ()
   \<and> (\<not> list_all (fetchable net) (map (precache_request base) PRECACHE_URLS) \<longrightarrow>
        storage (install net base s) = caches_open CACHE_NAME s
      \<and> events (install net base s)
          = Open CACHE_NAME # map Fetch (map (precache_request base) PRECACHE_URLS) @ [Warn])"
  by (simp add: install_def cache_addAll_def result_def storage_def events_def)

theorem install_never_fails_witness:
  "\<not> list_all (fetchable offline) (map (precache_request app_origin) PRECACHE_URLS)
   \<and> result (install offline app_origin []) = Fulfilled ()
   \<and> storage (install offline app_origin []) = [(CACHE_NAME, Map.empty)]
   \<and> last (events (install offline app_origin [])) = Warn"
  using install_never_fails [of offline app_origin "[]"]
  by (simp add: PRECACHE_URLS_def fetchable_def offline_def caches_open_def caches_keys_def)

lemma fold_caches_delete:
  "fold caches_delete names s = filter (\<lambda>(n, c). n \<notin> set names) s"
proof (induction names arbitrary: s)
  case Nil
  then show ?case by simp
next
  case (Cons a names)
  have "filter (\<lambda>(n, c). n \<notin> set names) (caches_delete a s)
        = filter (\<lambda>(n, c). n \<notin> set (a # names)) s"
    by (auto simp: caches_delete_def intro: filter_cong)
  with Cons show ?case by simp
qed

lemma storage_activate: "storage (activate s) = filter (\<lambda>(n, c). n = CACHE_NAME) s"
proof -
  have "filter (\<lambda>(n, c). n \<notin> set (filter (\<lambda>name. name \<noteq> CACHE_NAME) (caches_keys s))) s
        = filter (\<lambda>(n, c). n = CACHE_NAME) s"
    by (rule filter_cong) (auto simp: caches_keys_def image_iff)
  then show ?thesis
    by (simp add: activate_def storage_def Let_def fold_caches_delete)
qed

lemma activated_activate: "activated (storage (activate s))"
  by (auto simp: storage_activate activated_def caches_keys_def list_all_iff)

lemma entry_activate: "entry (storage (activate s)) CACHE_NAME r = entry s CACHE_NAME r"
  unfolding storage_activate entry_def
  by (induction s) auto

lemma caches_keys_put_fetched: "caches_keys (put_fetched net name r s) = caches_keys s"
  by (simp add: put_fetched_def caches_keys_write split: promise.splits)

lemma entry_fold_put_fetched:
  assumes "name \<in> set (caches_keys s)" and "net r = Fulfilled resp"
    and "r \<in> set rs \<or> entry s name r = Some resp"
  shows "entry (fold (put_fetched net name) rs s) name r = Some resp"
  using assms
proof (induction rs arbitrary: s)
  case Nil
  then show ?case by simp
next
  case (Cons a rs)
  have keys: "name \<in> set (caches_keys (put_fetched net name a s))"
    using Cons.prems(1) by (simp add: caches_keys_put_fetched)
  have "r \<in> set rs \<or> entry (put_fetched net name a s) name r = Some resp"
  proof (cases "a = r")
    case True
    with Cons.prems(1,2) show ?thesis
      by (simp add: put_fetched_def entry_write_same)
  next
    case False
    with Cons.prems(3) show ?thesis
      by (auto simp: put_fetched_def entry_write_other split: promise.splits)
  qed
  from Cons.IH [OF keys Cons.prems(2) this] show ?case by simp
qed

lemma storage_install:
  "storage (install net base s) =
     (if list_all (fetchable net) (map (precache_request base) PRECACHE_URLS)
      then fold (put_fetched net CACHE_NAME) (map (precache_request base) PRECACHE_URLS)
             (caches_open CACHE_NAME s)
      else caches_open CACHE_NAME s)"
  by (simp add: install_def cache_addAll_def storage_def)

text \<open>
  After install and activate, no cache of another version is left, and when every
  resource of the precache list could be fetched, each of them is in the cache of this
  version.
\<close>

lemma install_all_fetchable:
  assumes "list_all (fetchable net) (map (precache_request base) PRECACHE_URLS)"
    and "p \<in> set PRECACHE_URLS" and "net (precache_request base p) = Fulfilled resp"
  shows "entry (storage (activate (storage (install net base s)))) CACHE_NAME (precache_request base p)
         = Some resp"
  using assms
  by (simp add: entry_activate storage_install entry_fold_put_fetched caches_keys_open)

text \<open>
  Claim C6. After activation only the cache of this version is left, and it should hold
  every resource of the precache list that could be fetched at install time. The second
  half fails on the code: with a server that answers 404 for the favicon and 200 for
  everything else, the root document can be fetched, yet after install and activate the
  cache of this version holds none of the resources of the precache list (and the cache
  \<^verbatim>\<open>logisfit-v0\<close> of the older version is gone).
\<close>

theorem precache_one_unreachable:
  "fetchable favicon_missing (precache_request app_origin ''/'')
   \<and> ''/'' \<in> set PRECACHE_URLS
   \<and> caches_keys (storage (activate (storage (install favicon_missing app_origin
        [(''logisfit-v0'', Map.empty)])))) = [CACHE_NAME]
   \<and> entry (storage (activate (storage (install favicon_missing app_origin
        [(''logisfit-v0'', Map.empty)])))) CACHE_NAME (precache_request app_origin ''/'') = None
   \<and> storage (activate (storage (install favicon_missing app_origin
        [(''logisfit-v0'', Map.empty)]))) = [(CACHE_NAME, Map.empty)]"
  by (simp add: storage_activate storage_install
      fetchable_def favicon_missing_def precache_request_def PRECACHE_URLS_def page_200_def
      page_404_def ok_def vary_star_def caches_open_def caches_keys_def CACHE_NAME_def entry_def)

subsection \<open>The offline page\<close>

lemma offline_page_fields:
  "status offline_page = 200"
  "headers offline_page = [(''Content-Type'', ''text/html; charset=UTF-8'')]"
  "body offline_page = offline_html"
  by (simp_all add: offline_page_def new_Response_def)

lemma offline_html_document:
  \<open>startsWith offline_html ''<!DOCTYPE html><html><head>''\<close>
  \<open>suffix ''</body></html>'' offline_html\<close>
  by (simp add: startsWith_def offline_html_def) code_simp

lemma offline_html_metadata:
  \<open>str_includes offline_html ''<meta charset="UTF-8">''\<close>
  \<open>str_includes offline_html ''<meta name="viewport" content="width=device-width,initial-scale=1">''\<close>
  by code_simp+

lemma offline_html_message:
  \<open>str_includes offline_html (''<h1>'' @ ko_offline_state @ ''</h1>'')\<close>
  \<open>str_includes offline_html (''<p>'' @ ko_check_connection @ ''</p>'')\<close>
  by code_simp+

lemma offline_html_reload:
  \<open>str_includes offline_html (''<button onclick="location.reload()"'')\<close>
  \<open>str_includes offline_html (ko_reload @ ''</button>'')\<close>
  by code_simp+

lemma offline_html_self_contained:
  \<open>\<not> str_includes offline_html ''src=''\<close>
  \<open>\<not> str_includes offline_html ''href=''\<close>
  by code_simp+

text \<open>
  Claim C8. The offline page is one fixed response: wherever \<open>networkFirst\<close> falls back to
  it, for every network, storage and request, the page gets the same value, and building
  it adds no fetch and no cache call to the failed fetch and the missed lookup before it.
  Its status is 200, its content type is HTML, and its body is a complete HTML document
  with the charset and viewport metadata, the offline message, and a button that reloads
  the page; the document refers to no other resource.
\<close>

theorem offline_responder:
  \<open>(net r = Rejected \<and> caches_match s r = None \<longrightarrow>
      networkFirst net s r = (Fulfilled offline_page, s, [Fetch r, Match r]))
   \<and> status offline_page = 200 \<and> ok offline_page
   \<and> headers offline_page = [(''Content-Type'', ''text/html; charset=UTF-8'')]
   \<and> startsWith (body offline_page) ''<!DOCTYPE html><html><head>''
   \<and> suffix ''</body></html>'' (body offline_page)
   \<and> str_includes (body offline_page) ''<meta charset="UTF-8">''
   \<and> str_includes (body offline_page) ''<meta name="viewport" content="width=device-width,initial-scale=1">''
   \<and> str_includes (body offline_page) (''<h1>'' @ ko_offline_state @ ''</h1>'')
   \<and> str_includes (body offline_page) (''<p>'' @ ko_check_connection @ ''</p>'')
   \<and> str_includes (body offline_page) (''<button onclick="location.reload()"'')
   \<and> str_includes (body offline_page) (ko_reload @ ''</button>'')
   \<and> \<not> str_includes (body offline_page) ''src=''
   \<and> \<not> str_includes (body offline_page) ''href=''\<close>
proof -
  have "net r = Rejected \<and> caches_match s r = None \<longrightarrow>
      networkFirst net s r = (Fulfilled offline_page, s, [Fetch r, Match r])"
    by (simp add: networkFirst_def)
  moreover have "ok offline_page"
    by (simp add: ok_def offline_page_fields)
  ultimately show ?thesis
    using offline_html_document offline_html_metadata offline_html_message
      offline_html_reload offline_html_self_contained
    by (simp only: offline_page_fields simp_thms)
qed

theorem offline_responder_witness:
  "offline (GET ''/dashboard'') = Rejected
   \<and> caches_match [] (GET ''/dashboard'') = None
   \<and> networkFirst offline [] (GET ''/dashboard'')
       = (Fulfilled offline_page, [], [Fetch (GET ''/dashboard''), Match (GET ''/dashboard'')])
   \<and> offline (GET ''/orders'') = Rejected
   \<and> caches_match [(CACHE_NAME, [GET ''/dashboard'' \<mapsto> page_200])] (GET ''/orders'') = None
   \<and> result (networkFirst offline [(CACHE_NAME, [GET ''/dashboard'' \<mapsto> page_200])] (GET ''/orders''))
       = Fulfilled offline_page"
  using offline_responder [THEN conjunct1, of offline "GET ''/dashboard''" "[]"]
    offline_responder [THEN conjunct1, of offline "GET ''/orders''"
      "[(CACHE_NAME, [GET ''/dashboard'' \<mapsto> page_200])]"]
  by (simp add: offline_def result_def GET_def app_origin_def)

end
